theory Spec2Isabelle
  imports Complex_Main "HOL-Library.Word"
begin

section \<open>Wall sensors of the micromouse library: walls.c\<close>

text \<open>
  The module keeps two arrays of four \<open>float\<close>s, \<open>distance\<close> and
  \<open>calibration_factor\<close>, indexed by the sensor identifier. Every function below is
  the function of the same name in \<open>walls.c\<close>, with the two arrays passed explicitly.

  Numbers: the value of a C \<open>float\<close> is a \<open>real\<close>; overflow, infinities and NaN are
  outside the model. The distance readings, the detections and the error signals are
  stated on the expressions of the program in exact arithmetic. The calibration of the
  side sensors stores a value that depends on the rounding of every operation, so there
  each operation is rounded as the program rounds it: to the nearest binary32 number for
  an operation on \<open>float\<close>s, to the nearest binary64 number for one on \<open>double\<close>s,
  ties to even.

  A division by zero yields an infinity in C, while \<open>x / 0 = 0\<close> in HOL. The only
  division by a value that is not a constant is the one by the result of
  \<open>sensor_raw_log\<close>; where that result is zero, the distance of the model is not the
  distance of the program.

  The header \<open>walls.h\<close> and what it includes are not part of the sources at hand. The
  macros \<open>MIDDLE_MAZE_DISTANCE\<close> and \<open>CELL_DIMENSION\<close> are therefore parameters of the
  functions that use them, and so are the collaborators
  \<open>sensor_adc_get_value_on\<close>, \<open>sensor_adc_get_value_off\<close> and \<open>sensor_raw_log\<close>.
\<close>

subsection \<open>Sensor identifiers\<close>

text \<open>
  Modelled from the spec: the sensor enumeration of \<open>sensor.h\<close> is missing. The
  specification fixes exactly four sensors in the order front-left, front-right,
  side-left, side-right, used as array indices; the initialisers of the two calibration
  tables in \<open>walls.c\<close> list the constants in that order.
\<close>

definition SENSOR_FRONT_LEFT :: nat where
  "SENSOR_FRONT_LEFT = 0"

definition SENSOR_FRONT_RIGHT :: nat where
  "SENSOR_FRONT_RIGHT = 1"

definition SENSOR_SIDE_LEFT :: nat where
  "SENSOR_SIDE_LEFT = 2"

definition SENSOR_SIDE_RIGHT :: nat where
  "SENSOR_SIDE_RIGHT = 3"

definition SENSORS_WALL_MAX :: nat where
  "SENSORS_WALL_MAX = 4"

subsection \<open>Calibration constants and thresholds\<close>

definition SENSOR_SIDE_LEFT_A :: real where
  "SENSOR_SIDE_LEFT_A = 2.806"

definition SENSOR_SIDE_LEFT_B :: real where
  "SENSOR_SIDE_LEFT_B = 0.287"

definition SENSOR_SIDE_RIGHT_A :: real where
  "SENSOR_SIDE_RIGHT_A = 2.327"

definition SENSOR_SIDE_RIGHT_B :: real where
  "SENSOR_SIDE_RIGHT_B = 0.231"

definition SENSOR_FRONT_LEFT_A :: real where
  "SENSOR_FRONT_LEFT_A = 1500.462"

definition SENSOR_FRONT_LEFT_B :: real where
  "SENSOR_FRONT_LEFT_B = 138.777"

definition SENSOR_FRONT_RIGHT_A :: real where
  "SENSOR_FRONT_RIGHT_A = 1378.603"

definition SENSOR_FRONT_RIGHT_B :: real where
  "SENSOR_FRONT_RIGHT_B = 124.503"

definition sensors_calibration_a :: "real list" where
  "sensors_calibration_a =
     [SENSOR_FRONT_LEFT_A, SENSOR_FRONT_RIGHT_A, SENSOR_SIDE_LEFT_A, SENSOR_SIDE_RIGHT_A]"

definition sensors_calibration_b :: "real list" where
  "sensors_calibration_b =
     [SENSOR_FRONT_LEFT_B, SENSOR_FRONT_RIGHT_B, SENSOR_SIDE_LEFT_B, SENSOR_SIDE_RIGHT_B]"

definition SIDE_WALL_DETECTION :: "real \<Rightarrow> real" where
  "SIDE_WALL_DETECTION CELL_DIMENSION = CELL_DIMENSION * 0.90"

definition FRONT_WALL_DETECTION :: "real \<Rightarrow> real" where
  "FRONT_WALL_DETECTION CELL_DIMENSION = CELL_DIMENSION * 1.5"

definition SIDE_CALIBRATION_READINGS :: nat where
  "SIDE_CALIBRATION_READINGS = 20"

definition DIAGONAL_MIN_DISTANCE :: real where
  "DIAGONAL_MIN_DISTANCE = 0.24"

subsection \<open>The state of the module\<close>

text \<open>
  The two file-scope arrays. An array is a function from the index to the entry; only
  the indices below \<open>SENSORS_WALL_MAX\<close> are ever read or written.
\<close>

record walls_state =
  distance :: "nat \<Rightarrow> real"
  calibration_factor :: "nat \<Rightarrow> real"

text \<open>Objects of static storage duration start zeroed.\<close>

definition walls_init :: walls_state where
  "walls_init = \<lparr>distance = (\<lambda>i. 0), calibration_factor = (\<lambda>i. 0)\<rparr>"

subsection \<open>Distance readings\<close>

text \<open>
  One pass of the body of the loop of \<open>update_distance_readings\<close>, for the sensor
  \<open>i\<close>: the two samples are taken, the calibration curve is applied and stored, and
  for a side sensor the stored value is then reduced by the calibration factor.
\<close>

definition update_distance_body ::
  "(nat \<Rightarrow> 16 word) \<Rightarrow> (nat \<Rightarrow> 16 word) \<Rightarrow> (16 word \<Rightarrow> 16 word \<Rightarrow> real) \<Rightarrow>
   nat \<Rightarrow> walls_state \<Rightarrow> walls_state" where
  "update_distance_body sensor_adc_get_value_on sensor_adc_get_value_off sensor_raw_log i st =
     (let on = sensor_adc_get_value_on i;
          off = sensor_adc_get_value_off i;
          st1 = st\<lparr>distance := (distance st)
                  (i := sensors_calibration_a ! i / sensor_raw_log on off -
                        sensors_calibration_b ! i)\<rparr>
      in if i = SENSOR_SIDE_LEFT \<or> i = SENSOR_SIDE_RIGHT
         then st1\<lparr>distance := (distance st1)
                  (i := distance st1 i - calibration_factor st1 i)\<rparr>
         else st1)"

function update_distance_loop ::
  "(nat \<Rightarrow> 16 word) \<Rightarrow> (nat \<Rightarrow> 16 word) \<Rightarrow> (16 word \<Rightarrow> 16 word \<Rightarrow> real) \<Rightarrow>
   nat \<Rightarrow> walls_state \<Rightarrow> walls_state" where
  "update_distance_loop sensor_adc_get_value_on sensor_adc_get_value_off sensor_raw_log i st =
     (if i < SENSORS_WALL_MAX
      then update_distance_loop sensor_adc_get_value_on sensor_adc_get_value_off sensor_raw_log
             (i + 1)
             (update_distance_body sensor_adc_get_value_on sensor_adc_get_value_off
                sensor_raw_log i st)
      else st)"
  by pat_completeness auto
termination
  by (relation "measure (\<lambda>(on, off, rlog, i, st). SENSORS_WALL_MAX - i)") auto

definition update_distance_readings ::
  "(nat \<Rightarrow> 16 word) \<Rightarrow> (nat \<Rightarrow> 16 word) \<Rightarrow> (16 word \<Rightarrow> 16 word \<Rightarrow> real) \<Rightarrow>
   walls_state \<Rightarrow> walls_state" where
  "update_distance_readings sensor_adc_get_value_on sensor_adc_get_value_off sensor_raw_log st =
     update_distance_loop sensor_adc_get_value_on sensor_adc_get_value_off sensor_raw_log 0 st"

definition get_front_left_distance :: "walls_state \<Rightarrow> real" where
  "get_front_left_distance st = distance st SENSOR_FRONT_LEFT"

definition get_front_right_distance :: "walls_state \<Rightarrow> real" where
  "get_front_right_distance st = distance st SENSOR_FRONT_RIGHT"



subsection \<open>Wall detection\<close>

definition left_wall_detection :: "real \<Rightarrow> walls_state \<Rightarrow> bool" where
  "left_wall_detection CELL_DIMENSION st =
     (if distance st SENSOR_SIDE_LEFT < SIDE_WALL_DETECTION CELL_DIMENSION then True else False)"

definition right_wall_detection :: "real \<Rightarrow> walls_state \<Rightarrow> bool" where
  "right_wall_detection CELL_DIMENSION st =
     (if distance st SENSOR_SIDE_RIGHT < SIDE_WALL_DETECTION CELL_DIMENSION then True else False)"

definition front_wall_detection :: "real \<Rightarrow> walls_state \<Rightarrow> bool" where
  "front_wall_detection CELL_DIMENSION st =
     (if distance st SENSOR_FRONT_LEFT < FRONT_WALL_DETECTION CELL_DIMENSION \<and>
         distance st SENSOR_FRONT_RIGHT < FRONT_WALL_DETECTION CELL_DIMENSION
      then True else False)"

record walls_around =
  left :: bool
  front :: bool
  right :: bool

definition read_walls :: "real \<Rightarrow> walls_state \<Rightarrow> walls_around" where
  "read_walls CELL_DIMENSION st =
     \<lparr>left = left_wall_detection CELL_DIMENSION st,
      front = front_wall_detection CELL_DIMENSION st,
      right = right_wall_detection CELL_DIMENSION st\<rparr>"

subsection \<open>Error signals\<close>

definition get_side_sensors_close_error :: "real \<Rightarrow> walls_state \<Rightarrow> real" where
  "get_side_sensors_close_error MIDDLE_MAZE_DISTANCE st =
     (let left_error = distance st SENSOR_SIDE_LEFT - MIDDLE_MAZE_DISTANCE;
          right_error = distance st SENSOR_SIDE_RIGHT - MIDDLE_MAZE_DISTANCE
      in if left_error > 0 \<and> right_error < 0 then right_error
         else if right_error > 0 \<and> left_error < 0 then - left_error
         else 0)"

definition get_side_sensors_far_error :: "real \<Rightarrow> walls_state \<Rightarrow> real" where
  "get_side_sensors_far_error MIDDLE_MAZE_DISTANCE st =
     (let left_error = distance st SENSOR_SIDE_LEFT - MIDDLE_MAZE_DISTANCE;
          right_error = distance st SENSOR_SIDE_RIGHT - MIDDLE_MAZE_DISTANCE
      in if left_error > 0.1 \<and> right_error < 0.04 then right_error
         else if right_error > 0.1 \<and> left_error < 0.04 then - left_error
         else 0)"

definition get_front_sensors_error :: "real \<Rightarrow> walls_state \<Rightarrow> real" where
  "get_front_sensors_error CELL_DIMENSION st =
     (if \<not> front_wall_detection CELL_DIMENSION st then 0
      else distance st SENSOR_FRONT_LEFT - distance st SENSOR_FRONT_RIGHT)"

definition get_diagonal_sensors_error :: "walls_state \<Rightarrow> real" where
  "get_diagonal_sensors_error st =
     (let left_error = distance st SENSOR_FRONT_LEFT - DIAGONAL_MIN_DISTANCE;
          right_error = distance st SENSOR_FRONT_RIGHT - DIAGONAL_MIN_DISTANCE
      in if right_error < 0 then right_error
         else if left_error < 0 then - left_error
         else 0)"

definition get_front_wall_distance :: "walls_state \<Rightarrow> real" where
  "get_front_wall_distance st =
     (distance st SENSOR_FRONT_LEFT + distance st SENSOR_FRONT_RIGHT) / 2"

subsection \<open>Calibration of the side sensors\<close>

text \<open>
  Rounding to the nearest, ties to even: the integer nearest to \<open>x\<close>, the even one of
  the two when \<open>x\<close> lies half way.
\<close>

definition round_half_even :: "real \<Rightarrow> int" where
  "round_half_even x =
     (let f = \<lfloor>x\<rfloor>; r = x - of_int f
      in if r < 1 / 2 then f
         else if 1 / 2 < r then f + 1
         else if even f then f else f + 1)"

text \<open>
  The binary exponent of \<open>x\<close>, searched downwards from \<open>e\<close> in at most \<open>n\<close> steps:
  the largest exponent whose power of two does not exceed \<open>\<bar>x\<bar>\<close>, and the exponent
  reached after \<open>n\<close> steps for a smaller \<open>x\<close> (the subnormal range, zero included).
\<close>

fun find_exponent :: "nat \<Rightarrow> int \<Rightarrow> real \<Rightarrow> int" where
  "find_exponent 0 e x = e"
| "find_exponent (Suc n) e x =
     (if 2 powi e \<le> \<bar>x\<bar> then e else find_exponent n (e - 1) x)"

text \<open>
  The number of the binary format with \<open>p\<close> significant bits and exponents from
  \<open>emin\<close> to \<open>emax\<close> that is nearest to \<open>x\<close>: \<open>x\<close> is rounded to a multiple of the
  spacing of the format at its exponent. Beyond the largest number of the format C
  yields an infinity; that range is outside the model.
\<close>

definition round_binary :: "nat \<Rightarrow> int \<Rightarrow> int \<Rightarrow> real \<Rightarrow> real" where
  "round_binary p emin emax x =
     (let e = find_exponent (nat (emax - emin)) emax x;
          q = 2 powi (e - int p + 1)
      in of_int (round_half_even (x / q)) * q)"

definition to_float :: "real \<Rightarrow> real" where
  "to_float x = round_binary 24 (- 126) 127 x"

definition to_double :: "real \<Rightarrow> real" where
  "to_double x = round_binary 53 (- 1022) 1023 x"

text \<open>
  The loop of \<open>side_sensors_calibration\<close>, with the two local sums as accumulators. Each
  \<open>+=\<close> adds two \<open>float\<close>s and stores a \<open>float\<close>. \<open>time_wait_ms\<close> only delays: it
  has no access to the arrays of this module, so in this sequential model each pass
  reads the same \<open>distance\<close> array.
\<close>

function side_calibration_loop :: "nat \<Rightarrow> walls_state \<Rightarrow> real \<times> real \<Rightarrow> real \<times> real" where
  "side_calibration_loop i st (left_temp, right_temp) =
     (if i < SIDE_CALIBRATION_READINGS
      then side_calibration_loop (i + 1) st
             (to_float (left_temp + distance st SENSOR_SIDE_LEFT),
              to_float (right_temp + distance st SENSOR_SIDE_RIGHT))
      else (left_temp, right_temp))"
  by pat_completeness auto
termination
  by (relation "measure (\<lambda>(i, st, acc). SIDE_CALIBRATION_READINGS - i)") auto

text \<open>
  The two assignments after the loop. The sum is divided by the number of readings as a
  \<open>float\<close>. \<open>MIDDLE_MAZE_DISTANCE\<close> is taken to be a \<open>double\<close>, as the unsuffixed
  constants of \<open>walls.c\<close> are: the subtraction and the addition to the calibration
  factor are then operations on \<open>double\<close>s, and the sum is converted to \<open>float\<close> when
  it is stored.
\<close>

definition side_sensors_calibration :: "real \<Rightarrow> walls_state \<Rightarrow> walls_state" where
  "side_sensors_calibration MIDDLE_MAZE_DISTANCE st =
     (case side_calibration_loop 0 st (0, 0) of (left_temp, right_temp) \<Rightarrow>
        let st1 = st\<lparr>calibration_factor := (calibration_factor st)
                      (SENSOR_SIDE_LEFT :=
                         to_float (to_double (calibration_factor st SENSOR_SIDE_LEFT +
                           to_double (to_float (left_temp / real SIDE_CALIBRATION_READINGS) -
                             MIDDLE_MAZE_DISTANCE))))\<rparr>
        in st1\<lparr>calibration_factor := (calibration_factor st1)
                 (SENSOR_SIDE_RIGHT :=
                    to_float (to_double (calibration_factor st1 SENSOR_SIDE_RIGHT +
                      to_double (to_float (right_temp / real SIDE_CALIBRATION_READINGS) -
                        MIDDLE_MAZE_DISTANCE))))\<rparr>)"

subsection \<open>Sequences of calls\<close>

text \<open>
  The entry points of the module as a datatype, one constructor for each function of
  \<open>walls.c\<close>. A call of \<open>update_distance_readings\<close> carries the samples that the
  converter delivers during that call.
\<close>

datatype operation =
    Update_distance_readings "nat \<Rightarrow> 16 word" "nat \<Rightarrow> 16 word"
  | Side_sensors_calibration
  | Get_front_left_distance
  | Get_front_right_distance
  | Get_side_left_distance
  | Get_side_right_distance
  | Get_side_sensors_close_error
  | Get_side_sensors_far_error
  | Get_front_sensors_error
  | Get_diagonal_sensors_error
  | Get_front_wall_distance
  | Left_wall_detection
  | Right_wall_detection
  | Front_wall_detection
  | Read_walls

text \<open>
  The state after one call. Only \<open>update_distance_readings\<close> and
  \<open>side_sensors_calibration\<close> assign to the arrays; the other functions return a value
  computed from them and leave them as they are.
\<close>

fun step :: "(16 word \<Rightarrow> 16 word \<Rightarrow> real) \<Rightarrow> real \<Rightarrow> walls_state \<Rightarrow> operation \<Rightarrow> walls_state" where
  "step sensor_raw_log MIDDLE_MAZE_DISTANCE st (Update_distance_readings adc_on adc_off) =
     update_distance_readings adc_on adc_off sensor_raw_log st"
| "step sensor_raw_log MIDDLE_MAZE_DISTANCE st Side_sensors_calibration =
     side_sensors_calibration MIDDLE_MAZE_DISTANCE st"
| "step sensor_raw_log MIDDLE_MAZE_DISTANCE st _ = st"

fun run :: "(16 word \<Rightarrow> 16 word \<Rightarrow> real) \<Rightarrow> real \<Rightarrow> walls_state \<Rightarrow> operation list \<Rightarrow> walls_state" where
  "run sensor_raw_log MIDDLE_MAZE_DISTANCE st [] = st"
| "run sensor_raw_log MIDDLE_MAZE_DISTANCE st (c # cs) =
     run sensor_raw_log MIDDLE_MAZE_DISTANCE (step sensor_raw_log MIDDLE_MAZE_DISTANCE st c) cs"

subsection \<open>A bench set-up for concrete runs\<close>




text \<open>A state with the given side distances and one with the given front distances.\<close>

definition side_state :: "real \<Rightarrow> real \<Rightarrow> walls_state" where
  "side_state l r =
     walls_init\<lparr>distance := (distance walls_init)(SENSOR_SIDE_LEFT := l, SENSOR_SIDE_RIGHT := r)\<rparr>"

definition front_state :: "real \<Rightarrow> real \<Rightarrow> walls_state" where
  "front_state l r =
     walls_init\<lparr>distance := (distance walls_init)(SENSOR_FRONT_LEFT := l, SENSOR_FRONT_RIGHT := r)\<rparr>"


text \<open>
  What one run of the loop stores for the sensor \<open>j\<close>, as a function of the state at
  the start of the run: the calibration curve at the ratio of the two samples, less the
  calibration factor when \<open>j\<close> is a side sensor. It is used to describe the loop, not
  to define it.
\<close>

definition stored_reading ::
  "(nat \<Rightarrow> 16 word) \<Rightarrow> (nat \<Rightarrow> 16 word) \<Rightarrow> (16 word \<Rightarrow> 16 word \<Rightarrow> real) \<Rightarrow>
   walls_state \<Rightarrow> nat \<Rightarrow> real" where
  "stored_reading adc_on adc_off rlog st j =
     sensors_calibration_a ! j / rlog (adc_on j) (adc_off j) - sensors_calibration_b ! j -
     (if j = SENSOR_SIDE_LEFT \<or> j = SENSOR_SIDE_RIGHT then calibration_factor st j else 0)"

text \<open>
  What \<open>n\<close> passes of the loop of \<open>side_sensors_calibration\<close> make of one of its sums
  \<open>t\<close> when the reading is \<open>d\<close>. It is used to describe the loop, not to define it.
\<close>

fun summed_readings :: "nat \<Rightarrow> real \<Rightarrow> real \<Rightarrow> real" where
  "summed_readings 0 d t = t"
| "summed_readings (Suc n) d t = summed_readings n d (to_float (t + d))"

section \<open>Properties\<close>

lemmas sensor_ids =
  SENSOR_FRONT_LEFT_def SENSOR_FRONT_RIGHT_def SENSOR_SIDE_LEFT_def SENSOR_SIDE_RIGHT_def
  SENSORS_WALL_MAX_def

declare update_distance_loop.simps [simp del]

declare side_calibration_loop.simps [simp del]

subsection \<open>The loop of \<open>update_distance_readings\<close>\<close>

lemma update_distance_body_calibration:
  "calibration_factor (update_distance_body adc_on adc_off rlog i st) = calibration_factor st"
  by (simp add: update_distance_body_def Let_def)

lemma update_distance_body_distance:
  "distance (update_distance_body adc_on adc_off rlog i st) j =
     (if j = i then stored_reading adc_on adc_off rlog st j else distance st j)"
  by (simp add: update_distance_body_def Let_def stored_reading_def)

lemma stored_reading_body:
  "stored_reading adc_on adc_off rlog (update_distance_body adc_on' adc_off' rlog' i st) j =
     stored_reading adc_on adc_off rlog st j"
  by (simp add: stored_reading_def update_distance_body_calibration)

lemma update_distance_loop_calibration:
  "calibration_factor (update_distance_loop adc_on adc_off rlog i st) = calibration_factor st"
proof (induction adc_on adc_off rlog i st rule: update_distance_loop.induct)
  case (1 adc_on adc_off rlog i st)
  show ?case
  proof (cases "i < SENSORS_WALL_MAX")
    case True
    then show ?thesis
      using "1.IH"
      by (subst update_distance_loop.simps) (simp add: update_distance_body_calibration)
  next
    case False
    then show ?thesis
      by (subst update_distance_loop.simps) simp
  qed
qed

text \<open>
  Started at \<open>i\<close>, the loop rewrites the entries from \<open>i\<close> up to the last sensor and
  keeps the others.
\<close>

lemma update_distance_loop_distance:
  "distance (update_distance_loop adc_on adc_off rlog i st) j =
     (if i \<le> j \<and> j < SENSORS_WALL_MAX then stored_reading adc_on adc_off rlog st j
      else distance st j)"
proof (induction adc_on adc_off rlog i st rule: update_distance_loop.induct)
  case (1 adc_on adc_off rlog i st)
  show ?case
  proof (cases "i < SENSORS_WALL_MAX")
    case True
    then show ?thesis
      using "1.IH"
      by (subst update_distance_loop.simps)
         (auto simp: update_distance_body_distance stored_reading_body)
  next
    case False
    then show ?thesis
      by (subst update_distance_loop.simps) simp
  qed
qed

lemma update_distance_readings_calibration:
  "calibration_factor (update_distance_readings adc_on adc_off rlog st) = calibration_factor st"
  by (simp add: update_distance_readings_def update_distance_loop_calibration)

lemma update_distance_readings_distance:
  "j < SENSORS_WALL_MAX \<Longrightarrow>
   distance (update_distance_readings adc_on adc_off rlog st) j =
     stored_reading adc_on adc_off rlog st j"
  by (simp add: update_distance_readings_def update_distance_loop_distance)

subsection \<open>The loop of \<open>side_sensors_calibration\<close>\<close>

text \<open>The exponent search finds the binary exponent of a number of the normal range.\<close>

lemma find_exponent_eq:
  "e' - int n \<le> e \<Longrightarrow> e \<le> e' \<Longrightarrow> 2 powi e \<le> \<bar>x\<bar> \<Longrightarrow> \<bar>x\<bar> < 2 powi (e + 1) \<Longrightarrow>
   find_exponent n e' x = e"
proof (induction n arbitrary: e')
  case 0
  then show ?case by simp
next
  case (Suc n)
  show ?case
  proof (cases "2 powi e' \<le> \<bar>x\<bar>")
    case True
    with Suc.prems(4) have "(2::real) powi e' < 2 powi (e + 1)"
      by linarith
    then have "e' < e + 1"
      using power_int_increasing [of "e + 1" e' "2::real"] by (cases "e' < e + 1") auto
    with Suc.prems(2) True show ?thesis
      by simp
  next
    case False
    with Suc.prems(3) have "(2::real) powi e < 2 powi e'"
      by linarith
    then have "e < e'"
      using power_int_increasing [of e' e "2::real"] by (cases "e < e'") auto
    with False Suc.prems Suc.IH [of "e' - 1"] show ?thesis
      by simp
  qed
qed

lemma round_binary_eq:
  assumes "emin \<le> e" "e \<le> emax" "2 powi e \<le> \<bar>x\<bar>" "\<bar>x\<bar> < 2 powi (e + 1)"
  shows "round_binary p emin emax x =
     of_int (round_half_even (x / 2 powi (e - int p + 1))) * 2 powi (e - int p + 1)"
proof -
  have "find_exponent (nat (emax - emin)) emax x = e"
    using assms by (intro find_exponent_eq) auto
  then show ?thesis
    by (simp add: round_binary_def Let_def)
qed

text \<open>Each remaining pass adds the current side distances to the two sums.\<close>

lemma side_calibration_loop_sum:
  "i \<le> SIDE_CALIBRATION_READINGS \<Longrightarrow>
   side_calibration_loop i st (left_temp, right_temp) =
     (summed_readings (SIDE_CALIBRATION_READINGS - i) (distance st SENSOR_SIDE_LEFT) left_temp,
      summed_readings (SIDE_CALIBRATION_READINGS - i) (distance st SENSOR_SIDE_RIGHT) right_temp)"
proof (induction i st "(left_temp, right_temp)" arbitrary: left_temp right_temp
       rule: side_calibration_loop.induct)
  case (1 i st left_temp right_temp)
  show ?case
  proof (cases "i < SIDE_CALIBRATION_READINGS")
    case True
    then have "SIDE_CALIBRATION_READINGS - i = Suc (SIDE_CALIBRATION_READINGS - (i + 1))"
      by simp
    with True "1.hyps" [OF True] show ?thesis
      by (subst side_calibration_loop.simps) simp
  next
    case False
    with "1.prems" show ?thesis
      by (subst side_calibration_loop.simps) simp
  qed
qed

lemma side_sensors_calibration_factor:
  "calibration_factor (side_sensors_calibration m st) =
     (calibration_factor st)
       (SENSOR_SIDE_LEFT :=
          to_float (to_double (calibration_factor st SENSOR_SIDE_LEFT +
            to_double (to_float (summed_readings 20 (distance st SENSOR_SIDE_LEFT) 0 / 20) - m))),
        SENSOR_SIDE_RIGHT :=
          to_float (to_double (calibration_factor st SENSOR_SIDE_RIGHT +
            to_double (to_float (summed_readings 20 (distance st SENSOR_SIDE_RIGHT) 0 / 20) - m))))"
  by (simp add: side_sensors_calibration_def side_calibration_loop_sum Let_def sensor_ids
      SIDE_CALIBRATION_READINGS_def)

lemma side_sensors_calibration_left:
  "calibration_factor (side_sensors_calibration m st) SENSOR_SIDE_LEFT =
     to_float (to_double (calibration_factor st SENSOR_SIDE_LEFT +
       to_double (to_float (summed_readings 20 (distance st SENSOR_SIDE_LEFT) 0 / 20) - m)))"
  by (simp add: side_sensors_calibration_factor sensor_ids)

lemma side_sensors_calibration_front:
  "calibration_factor (side_sensors_calibration m st) SENSOR_FRONT_LEFT =
     calibration_factor st SENSOR_FRONT_LEFT"
  "calibration_factor (side_sensors_calibration m st) SENSOR_FRONT_RIGHT =
     calibration_factor st SENSOR_FRONT_RIGHT"
  by (simp_all add: side_sensors_calibration_factor sensor_ids)

lemma side_sensors_calibration_distance:
  "distance (side_sensors_calibration m st) = distance st"
  by (simp add: side_sensors_calibration_def Let_def split: prod.split)

subsection \<open>Calls that leave the front calibration factors alone\<close>

lemma step_front_factors:
  "calibration_factor (step rlog m st c) SENSOR_FRONT_LEFT = calibration_factor st SENSOR_FRONT_LEFT \<and>
   calibration_factor (step rlog m st c) SENSOR_FRONT_RIGHT = calibration_factor st SENSOR_FRONT_RIGHT"
  by (cases c)
     (simp_all add: update_distance_readings_calibration side_sensors_calibration_front)

lemma run_front_factors:
  "calibration_factor (run rlog m st cs) SENSOR_FRONT_LEFT = calibration_factor st SENSOR_FRONT_LEFT \<and>
   calibration_factor (run rlog m st cs) SENSOR_FRONT_RIGHT = calibration_factor st SENSOR_FRONT_RIGHT"
  by (induction cs arbitrary: st) (simp_all add: step_front_factors)

text \<open>What is stored for a front sensor does not depend on the calibration factors.\<close>

lemma stored_reading_front:
  "j = SENSOR_FRONT_LEFT \<or> j = SENSOR_FRONT_RIGHT \<Longrightarrow>
   stored_reading adc_on adc_off rlog (st\<lparr>calibration_factor := f\<rparr>) j =
   stored_reading adc_on adc_off rlog st j"
  by (auto simp: stored_reading_def sensor_ids)

subsection \<open>The bench states\<close>

lemma side_state_distance:
  "distance (side_state l r) SENSOR_SIDE_LEFT = l"
  "distance (side_state l r) SENSOR_SIDE_RIGHT = r"
  by (simp_all add: side_state_def sensor_ids)

lemma front_state_distance:
  "distance (front_state l r) SENSOR_FRONT_LEFT = l"
  "distance (front_state l r) SENSOR_FRONT_RIGHT = r"
  by (simp_all add: front_state_def sensor_ids)


subsection \<open>The calibration at a side-left reading of 0.09\<close>

text \<open>
  The binary32 number nearest to 0.09 and the binary64 number nearest to 0.085: the
  values that a \<open>float\<close> reading of 0.09 and a \<open>double\<close> constant 0.085 have.
\<close>

lemma to_float_reading:
  "to_float 0.09 = 3019899 / 33554432"
  unfolding to_float_def
  by (subst round_binary_eq [of _ "- 4"]) (simp_all add: round_half_even_def Let_def power_int_minus)

lemma to_double_middle:
  "to_double 0.085 = 6124895493223875 / 72057594037927936"
  unfolding to_double_def
  by (subst round_binary_eq [of _ "- 4"]) (simp_all add: round_half_even_def Let_def power_int_minus)

text \<open>The twenty rounded additions of that reading, one after the other.\<close>

lemma summed_readings_scenario:
  "summed_readings 20 (3019899 / 33554432) 0 = 7549749 / 4194304"
proof -
  define d :: real where "d = 3019899 / 33554432"
  have r1: "to_float d = 3019899 / 33554432"
    unfolding d_def to_float_def
    by (subst round_binary_eq [of _ "- 4"]) (simp_all add: round_half_even_def Let_def power_int_minus)
  have r2: "to_float (3019899 / 33554432 + d) = 3019899 / 16777216"
    unfolding d_def to_float_def
    by (subst round_binary_eq [of _ "- 3"]) (simp_all add: round_half_even_def Let_def power_int_minus)
  have r3: "to_float (3019899 / 16777216 + d) = 9059697 / 33554432"
    unfolding d_def to_float_def
    by (subst round_binary_eq [of _ "- 2"]) (simp_all add: round_half_even_def Let_def power_int_minus)
  have r4: "to_float (9059697 / 33554432 + d) = 3019899 / 8388608"
    unfolding d_def to_float_def
    by (subst round_binary_eq [of _ "- 2"]) (simp_all add: round_half_even_def Let_def power_int_minus)
  have r5: "to_float (3019899 / 8388608 + d) = 15099495 / 33554432"
    unfolding d_def to_float_def
    by (subst round_binary_eq [of _ "- 2"]) (simp_all add: round_half_even_def Let_def power_int_minus)
  have r6: "to_float (15099495 / 33554432 + d) = 9059697 / 16777216"
    unfolding d_def to_float_def
    by (subst round_binary_eq [of _ "- 1"]) (simp_all add: round_half_even_def Let_def power_int_minus)
  have r7: "to_float (9059697 / 16777216 + d) = 5284823 / 8388608"
    unfolding d_def to_float_def
    by (subst round_binary_eq [of _ "- 1"]) (simp_all add: round_half_even_def Let_def power_int_minus)
  have r8: "to_float (5284823 / 8388608 + d) = 3019899 / 4194304"
    unfolding d_def to_float_def
    by (subst round_binary_eq [of _ "- 1"]) (simp_all add: round_half_even_def Let_def power_int_minus)
  have r9: "to_float (3019899 / 4194304 + d) = 6794773 / 8388608"
    unfolding d_def to_float_def
    by (subst round_binary_eq [of _ "- 1"]) (simp_all add: round_half_even_def Let_def power_int_minus)
  have r10: "to_float (6794773 / 8388608 + d) = 1887437 / 2097152"
    unfolding d_def to_float_def
    by (subst round_binary_eq [of _ "- 1"]) (simp_all add: round_half_even_def Let_def power_int_minus)
  have r11: "to_float (1887437 / 2097152 + d) = 8304723 / 8388608"
    unfolding d_def to_float_def
    by (subst round_binary_eq [of _ "- 1"]) (simp_all add: round_half_even_def Let_def power_int_minus)
  have r12: "to_float (8304723 / 8388608 + d) = 4529849 / 4194304"
    unfolding d_def to_float_def
    by (subst round_binary_eq [of _ "0"]) (simp_all add: round_half_even_def Let_def power_int_minus)
  have r13: "to_float (4529849 / 4194304 + d) = 9814673 / 8388608"
    unfolding d_def to_float_def
    by (subst round_binary_eq [of _ "0"]) (simp_all add: round_half_even_def Let_def power_int_minus)
  have r14: "to_float (9814673 / 8388608 + d) = 660603 / 524288"
    unfolding d_def to_float_def
    by (subst round_binary_eq [of _ "0"]) (simp_all add: round_half_even_def Let_def power_int_minus)
  have r15: "to_float (660603 / 524288 + d) = 11324623 / 8388608"
    unfolding d_def to_float_def
    by (subst round_binary_eq [of _ "0"]) (simp_all add: round_half_even_def Let_def power_int_minus)
  have r16: "to_float (11324623 / 8388608 + d) = 6039799 / 4194304"
    unfolding d_def to_float_def
    by (subst round_binary_eq [of _ "0"]) (simp_all add: round_half_even_def Let_def power_int_minus)
  have r17: "to_float (6039799 / 4194304 + d) = 12834573 / 8388608"
    unfolding d_def to_float_def
    by (subst round_binary_eq [of _ "0"]) (simp_all add: round_half_even_def Let_def power_int_minus)
  have r18: "to_float (12834573 / 8388608 + d) = 3397387 / 2097152"
    unfolding d_def to_float_def
    by (subst round_binary_eq [of _ "0"]) (simp_all add: round_half_even_def Let_def power_int_minus)
  have r19: "to_float (3397387 / 2097152 + d) = 14344523 / 8388608"
    unfolding d_def to_float_def
    by (subst round_binary_eq [of _ "0"]) (simp_all add: round_half_even_def Let_def power_int_minus)
  have r20: "to_float (14344523 / 8388608 + d) = 7549749 / 4194304"
    unfolding d_def to_float_def
    by (subst round_binary_eq [of _ "0"]) (simp_all add: round_half_even_def Let_def power_int_minus)
  have "summed_readings 20 d 0 = 7549749 / 4194304"
    by (simp add: eval_nat_numeral r1 r2 r3 r4 r5 r6 r7 r8 r9 r10 r11 r12 r13 r14 r15 r16 r17 r18 r19 r20)
  then show ?thesis
    by (simp add: d_def)
qed

text \<open>The mean of the readings as a \<open>float\<close>, and what is added to the factor.\<close>

lemma mean_scenario:
  "to_float (7549749 / 4194304 / 20) = 6039799 / 67108864"
  unfolding to_float_def
  by (subst round_binary_eq [of _ "- 4"]) (simp_all add: round_half_even_def Let_def power_int_minus)

lemma increment_scenario:
  "to_double (6039799 / 67108864 - 6124895493223875 / 72057594037927936) = 360289301629501 / 72057594037927936"
  unfolding to_double_def
  by (subst round_binary_eq [of _ "- 8"]) (simp_all add: round_half_even_def Let_def power_int_minus)

lemma side_sensors_calibration_scenario:
  assumes "distance st SENSOR_SIDE_LEFT = to_float 0.09"
  shows "calibration_factor (side_sensors_calibration (to_double 0.085) st) SENSOR_SIDE_LEFT =
    to_float (to_double (calibration_factor st SENSOR_SIDE_LEFT + 360289301629501 / 72057594037927936))"
  by (simp only: side_sensors_calibration_left assms to_float_reading to_double_middle
      summed_readings_scenario mean_scenario increment_scenario)

text \<open>From a factor of zero: the factor after one call and after two.\<close>

lemma first_factor_scenario:
  "to_float (to_double (0 + 360289301629501 / 72057594037927936)) = 5368729 / 1073741824"
proof -
  have a: "to_double (0 + 360289301629501 / 72057594037927936) = 360289301629501 / 72057594037927936"
    unfolding to_double_def
    by (subst round_binary_eq [of _ "- 8"]) (simp_all add: round_half_even_def Let_def power_int_minus)
  have b: "to_float (360289301629501 / 72057594037927936) = 5368729 / 1073741824"
    unfolding to_float_def
    by (subst round_binary_eq [of _ "- 8"]) (simp_all add: round_half_even_def Let_def power_int_minus)
  show ?thesis
    by (simp only: a b)
qed

lemma second_factor_scenario:
  "to_float (to_double (5368729 / 1073741824 + 360289301629501 / 72057594037927936)) = 5368729 / 536870912"
proof -
  have a: "to_double (5368729 / 1073741824 + 360289301629501 / 72057594037927936) = 720578605943357 / 72057594037927936"
    unfolding to_double_def
    by (subst round_binary_eq [of _ "- 7"]) (simp_all add: round_half_even_def Let_def power_int_minus)
  have b: "to_float (720578605943357 / 72057594037927936) = 5368729 / 536870912"
    unfolding to_float_def
    by (subst round_binary_eq [of _ "- 7"]) (simp_all add: round_half_even_def Let_def power_int_minus)
  show ?thesis
    by (simp only: a b)
qed


section \<open>The claims\<close>

subsection \<open>C1: distances after an update\<close>



subsection \<open>C2: the close error in the scenario of the specification\<close>

text \<open>
  C2 as stated: with a side-left distance of 0.12, a side-right distance of 0.10 and
  \<open>MIDDLE_MAZE_DISTANCE\<close> 0.085, \<open>get_side_sensors_close_error\<close> returns 0.015.
  It does not: the left error is 0.035 and the right error is 0.015, both positive, so
  neither of the two tests of the function holds.
\<close>

theorem close_error_scenario_counterexample:
  "get_side_sensors_close_error 0.085 (side_state 0.12 0.10) \<noteq> 0.015"
  by (simp add: get_side_sensors_close_error_def side_state_distance Let_def)

text \<open>
  C2, amended: with a side-left distance of 0.12, a side-right distance of 0.10 and
  \<open>MIDDLE_MAZE_DISTANCE\<close> 0.085, \<open>get_side_sensors_close_error\<close> returns 0.
\<close>

theorem close_error_scenario:
  assumes "distance st SENSOR_SIDE_LEFT = 0.12"
    and "distance st SENSOR_SIDE_RIGHT = 0.10"
  shows "get_side_sensors_close_error 0.085 st = 0"
  using assms by (simp add: get_side_sensors_close_error_def Let_def)

theorem close_error_scenario_witness:
  "distance (side_state 0.12 0.10) SENSOR_SIDE_LEFT = 0.12 \<and>
   distance (side_state 0.12 0.10) SENSOR_SIDE_RIGHT = 0.10 \<and>
   get_side_sensors_close_error 0.085 (side_state 0.12 0.10) = 0"
proof -
  have l: "distance (side_state 0.12 0.10) SENSOR_SIDE_LEFT = 0.12"
    by (simp add: side_state_distance)
  have r: "distance (side_state 0.12 0.10) SENSOR_SIDE_RIGHT = 0.10"
    by (simp add: side_state_distance)
  show ?thesis
    using l r close_error_scenario [OF l r] by simp
qed

subsection \<open>C3: the close error\<close>

text \<open>
  C3. With \<open>left_error\<close> and \<open>right_error\<close> the side distances less
  \<open>MIDDLE_MAZE_DISTANCE\<close>, \<open>get_side_sensors_close_error\<close> returns \<open>right_error\<close> when
  \<open>left_error > 0\<close> and \<open>right_error < 0\<close>, returns \<open>- left_error\<close> when
  \<open>right_error > 0\<close> and \<open>left_error < 0\<close>, and returns 0 whenever the two errors have
  the same sign or one of them is exactly 0.
\<close>

theorem close_error_cases:
  fixes m :: real and st :: walls_state
  defines "left_error \<equiv> distance st SENSOR_SIDE_LEFT - m"
    and "right_error \<equiv> distance st SENSOR_SIDE_RIGHT - m"
  shows
    "(left_error > 0 \<and> right_error < 0 \<longrightarrow>
        get_side_sensors_close_error m st = right_error) \<and>
     (right_error > 0 \<and> left_error < 0 \<longrightarrow>
        get_side_sensors_close_error m st = - left_error) \<and>
     (sgn left_error = sgn right_error \<or> left_error = 0 \<or> right_error = 0 \<longrightarrow>
        get_side_sensors_close_error m st = 0)"
  unfolding left_error_def right_error_def get_side_sensors_close_error_def Let_def
  by (auto simp: sgn_if split: if_splits)

text \<open>
  One state for each branch and for each way of returning 0: both errors positive, both
  negative, the left error zero, the right error zero.
\<close>

theorem close_error_cases_witness:
  "get_side_sensors_close_error 0.085 (side_state 0.10 0.07) = - 0.015 \<and>
   get_side_sensors_close_error 0.085 (side_state 0.07 0.10) = 0.015 \<and>
   get_side_sensors_close_error 0.085 (side_state 0.10 0.11) = 0 \<and>
   get_side_sensors_close_error 0.085 (side_state 0.07 0.06) = 0 \<and>
   get_side_sensors_close_error 0.085 (side_state 0.085 0.07) = 0 \<and>
   get_side_sensors_close_error 0.085 (side_state 0.10 0.085) = 0"
  using close_error_cases [where st = "side_state 0.10 0.07" and m = "0.085"]
    close_error_cases [where st = "side_state 0.07 0.10" and m = "0.085"]
    close_error_cases [where st = "side_state 0.10 0.11" and m = "0.085"]
    close_error_cases [where st = "side_state 0.07 0.06" and m = "0.085"]
    close_error_cases [where st = "side_state 0.085 0.07" and m = "0.085"]
    close_error_cases [where st = "side_state 0.10 0.085" and m = "0.085"]
  by (simp add: side_state_distance)

subsection \<open>C4: the far error\<close>

text \<open>
  C4. With the same two errors, \<open>get_side_sensors_far_error\<close> returns \<open>right_error\<close>
  when \<open>left_error > 0.1\<close> and \<open>right_error < 0.04\<close>, returns \<open>- left_error\<close> when
  \<open>right_error > 0.1\<close> and \<open>left_error < 0.04\<close>, and returns 0 in every other case.
\<close>

theorem far_error_cases:
  fixes m :: real and st :: walls_state
  defines "left_error \<equiv> distance st SENSOR_SIDE_LEFT - m"
    and "right_error \<equiv> distance st SENSOR_SIDE_RIGHT - m"
  shows
    "(left_error > 0.1 \<and> right_error < 0.04 \<longrightarrow>
        get_side_sensors_far_error m st = right_error) \<and>
     (right_error > 0.1 \<and> left_error < 0.04 \<longrightarrow>
        get_side_sensors_far_error m st = - left_error) \<and>
     (\<not> (left_error > 0.1 \<and> right_error < 0.04) \<and>
      \<not> (right_error > 0.1 \<and> left_error < 0.04) \<longrightarrow>
        get_side_sensors_far_error m st = 0)"
  unfolding left_error_def right_error_def get_side_sensors_far_error_def Let_def
  by auto

theorem far_error_cases_witness:
  "get_side_sensors_far_error 0.085 (side_state 0.2 0.1) = 0.015 \<and>
   get_side_sensors_far_error 0.085 (side_state 0.08 0.2) = 0.005 \<and>
   get_side_sensors_far_error 0.085 (side_state 0.2 0.2) = 0 \<and>
   get_side_sensors_far_error 0.085 (side_state 0.185 0.1) = 0"
  using far_error_cases [where st = "side_state 0.2 0.1" and m = "0.085"]
    far_error_cases [where st = "side_state 0.08 0.2" and m = "0.085"]
    far_error_cases [where st = "side_state 0.2 0.2" and m = "0.085"]
    far_error_cases [where st = "side_state 0.185 0.1" and m = "0.085"]
  by (simp add: side_state_distance)

subsection \<open>C5: the diagonal error\<close>

text \<open>
  C5. When both front distances are strictly below 0.24, \<open>get_diagonal_sensors_error\<close>
  returns the front-right distance less 0.24, which is negative, and not the value
  derived from the left sensor: the test of the right sensor comes first.
\<close>

theorem diagonal_error_right_first:
  assumes "distance st SENSOR_FRONT_LEFT < 0.24"
    and "distance st SENSOR_FRONT_RIGHT < 0.24"
  shows "get_diagonal_sensors_error st = distance st SENSOR_FRONT_RIGHT - 0.24 \<and>
         get_diagonal_sensors_error st < 0 \<and>
         get_diagonal_sensors_error st \<noteq> - (distance st SENSOR_FRONT_LEFT - 0.24)"
  using assms by (simp add: get_diagonal_sensors_error_def DIAGONAL_MIN_DISTANCE_def Let_def)

theorem diagonal_error_right_first_witness:
  "distance (front_state 0.10 0.20) SENSOR_FRONT_LEFT < 0.24 \<and>
   distance (front_state 0.10 0.20) SENSOR_FRONT_RIGHT < 0.24 \<and>
   get_diagonal_sensors_error (front_state 0.10 0.20) = - 0.04"
proof -
  have l: "distance (front_state 0.10 0.20) SENSOR_FRONT_LEFT < 0.24"
    by (simp add: front_state_distance)
  have r: "distance (front_state 0.10 0.20) SENSOR_FRONT_RIGHT < 0.24"
    by (simp add: front_state_distance)
  show ?thesis
    using l r diagonal_error_right_first [OF l r] by (simp add: front_state_distance)
qed

subsection \<open>C6: one calibration at a constant side-left distance\<close>

text \<open>
  C6 as stated: with the side-left distance at 0.09 during the 20 readings and
  \<open>MIDDLE_MAZE_DISTANCE\<close> 0.085, one call of \<open>side_sensors_calibration\<close> raises the
  side-left calibration factor by exactly 0.005. It does not: the reading is the
  \<open>float\<close> nearest to 0.09, the sum of 20 such readings is rounded at every addition,
  and from a factor of zero the factor stored is 5368729 / 2^30, a little above 0.005.
\<close>

theorem side_sensors_calibration_left_offset_counterexample:
  "calibration_factor
     (side_sensors_calibration (to_double 0.085) (side_state (to_float 0.09) (to_float 0.09)))
     SENSOR_SIDE_LEFT \<noteq>
   calibration_factor (side_state (to_float 0.09) (to_float 0.09)) SENSOR_SIDE_LEFT + 0.005"
proof -
  have d: "distance (side_state (to_float 0.09) (to_float 0.09)) SENSOR_SIDE_LEFT = to_float 0.09"
    by (simp add: side_state_distance)
  have c: "calibration_factor (side_state l r) SENSOR_SIDE_LEFT = 0" for l r
    by (simp add: side_state_def walls_init_def)
  show ?thesis
    by (simp only: side_sensors_calibration_scenario [OF d] c first_factor_scenario) simp
qed

text \<open>
  C6, amended: with the side-left distance at the \<open>float\<close> 0.09 during the 20 readings
  and \<open>MIDDLE_MAZE_DISTANCE\<close> the \<open>double\<close> 0.085, one call of
  \<open>side_sensors_calibration\<close> adds 360289301629501 / 2^56 to the side-left calibration
  factor and stores the sum as a \<open>float\<close>; that amount is 0.005 to within 10^-7, not
  exactly 0.005. The amount is added to the factor held before, not stored in its
  place, so a second call adds it again: from a factor of zero the factor is
  5368729 / 2^30 after one call and 5368729 / 2^29, twice as much, after two.
\<close>

theorem side_sensors_calibration_left_offset:
  assumes "distance st SENSOR_SIDE_LEFT = to_float 0.09"
  shows
    "calibration_factor (side_sensors_calibration (to_double 0.085) st) SENSOR_SIDE_LEFT =
       to_float (to_double (calibration_factor st SENSOR_SIDE_LEFT +
         360289301629501 / 2 ^ 56)) \<and>
     \<bar>360289301629501 / 2 ^ 56 - 0.005\<bar> < (1 / 10 ^ 7 :: real) \<and>
     (calibration_factor st SENSOR_SIDE_LEFT = 0 \<longrightarrow>
        calibration_factor (side_sensors_calibration (to_double 0.085) st) SENSOR_SIDE_LEFT =
          5368729 / 2 ^ 30 \<and>
        calibration_factor
          (side_sensors_calibration (to_double 0.085)
             (side_sensors_calibration (to_double 0.085) st)) SENSOR_SIDE_LEFT =
          5368729 / 2 ^ 29)"
proof -
  let ?st' = "side_sensors_calibration (to_double 0.085) st"
  have one: "calibration_factor ?st' SENSOR_SIDE_LEFT =
      to_float (to_double (calibration_factor st SENSOR_SIDE_LEFT + 360289301629501 / 72057594037927936))"
    by (rule side_sensors_calibration_scenario [OF assms])
  have d': "distance ?st' SENSOR_SIDE_LEFT = to_float 0.09"
    by (simp add: side_sensors_calibration_distance assms)
  have two: "calibration_factor (side_sensors_calibration (to_double 0.085) ?st')
      SENSOR_SIDE_LEFT =
      to_float (to_double (calibration_factor ?st' SENSOR_SIDE_LEFT + 360289301629501 / 72057594037927936))"
    by (rule side_sensors_calibration_scenario [OF d'])
  have zero: "calibration_factor ?st' SENSOR_SIDE_LEFT = 5368729 / 1073741824"
    if "calibration_factor st SENSOR_SIDE_LEFT = 0"
    using that by (simp only: one first_factor_scenario)
  have zero2: "calibration_factor (side_sensors_calibration (to_double 0.085) ?st')
      SENSOR_SIDE_LEFT = 5368729 / 536870912"
    if "calibration_factor st SENSOR_SIDE_LEFT = 0"
    using zero [OF that] by (simp only: two second_factor_scenario)
  have near: "\<bar>360289301629501 / 72057594037927936 - 0.005\<bar> < (1 / 10 ^ 7 :: real)"
    by simp
  have p: "(2::real) ^ 56 = 72057594037927936" "(2::real) ^ 30 = 1073741824"
    "(2::real) ^ 29 = 536870912"
    by simp_all
  from one near zero zero2 show ?thesis
    unfolding p by blast
qed

text \<open>The state with both side readings at the \<open>float\<close> 0.09 and factors of zero.\<close>

theorem side_sensors_calibration_left_offset_witness:
  "distance (side_state (to_float 0.09) (to_float 0.09)) SENSOR_SIDE_LEFT = to_float 0.09 \<and>
   calibration_factor (side_state (to_float 0.09) (to_float 0.09)) SENSOR_SIDE_LEFT = 0 \<and>
   calibration_factor
     (side_sensors_calibration (to_double 0.085) (side_state (to_float 0.09) (to_float 0.09)))
     SENSOR_SIDE_LEFT = 5368729 / 2 ^ 30 \<and>
   calibration_factor
     (side_sensors_calibration (to_double 0.085)
        (side_sensors_calibration (to_double 0.085)
           (side_state (to_float 0.09) (to_float 0.09))))
     SENSOR_SIDE_LEFT = 5368729 / 2 ^ 29"
proof -
  have d: "distance (side_state (to_float 0.09) (to_float 0.09)) SENSOR_SIDE_LEFT = to_float 0.09"
    by (simp add: side_state_distance)
  have c: "calibration_factor (side_state (to_float 0.09) (to_float 0.09)) SENSOR_SIDE_LEFT = 0"
    by (simp add: side_state_def walls_init_def)
  from side_sensors_calibration_left_offset [OF d] c d show ?thesis
    by blast
qed

subsection \<open>C7: detection of the side walls\<close>

text \<open>
  C7. \<open>left_wall_detection\<close> is true exactly when the side-left distance is strictly
  below 0.90 times the cell dimension, \<open>right_wall_detection\<close> exactly when the
  side-right distance is; a distance equal to the threshold gives false.
\<close>

theorem side_wall_detection_threshold:
  "(left_wall_detection c st \<longleftrightarrow> distance st SENSOR_SIDE_LEFT < 0.90 * c) \<and>
   (right_wall_detection c st \<longleftrightarrow> distance st SENSOR_SIDE_RIGHT < 0.90 * c) \<and>
   (distance st SENSOR_SIDE_LEFT = 0.90 * c \<longrightarrow> \<not> left_wall_detection c st) \<and>
   (distance st SENSOR_SIDE_RIGHT = 0.90 * c \<longrightarrow> \<not> right_wall_detection c st)"
  by (simp add: left_wall_detection_def right_wall_detection_def SIDE_WALL_DETECTION_def
      mult.commute)

theorem side_wall_detection_threshold_witness:
  "distance (side_state 0.162 0.162) SENSOR_SIDE_LEFT = 0.90 * 0.18 \<and>
   distance (side_state 0.162 0.162) SENSOR_SIDE_RIGHT = 0.90 * 0.18 \<and>
   \<not> left_wall_detection 0.18 (side_state 0.162 0.162) \<and>
   \<not> right_wall_detection 0.18 (side_state 0.162 0.162) \<and>
   left_wall_detection 0.18 (side_state 0.161 0.2) \<and>
   \<not> right_wall_detection 0.18 (side_state 0.161 0.2)"
  using side_wall_detection_threshold [of "0.18" "side_state 0.162 0.162"]
    side_wall_detection_threshold [of "0.18" "side_state 0.161 0.2"]
  by (simp add: side_state_distance)

subsection \<open>C8: the front error\<close>

text \<open>
  C8. \<open>get_front_sensors_error\<close> returns 0 whenever \<open>front_wall_detection\<close> is false,
  that is whenever one of the front distances is at or above 1.5 times the cell
  dimension; when \<open>front_wall_detection\<close> is true it returns the front-left distance
  less the front-right distance.
\<close>

theorem front_sensors_error_gated:
  "(\<not> front_wall_detection c st \<longrightarrow> get_front_sensors_error c st = 0) \<and>
   (front_wall_detection c st \<longrightarrow>
      get_front_sensors_error c st =
        distance st SENSOR_FRONT_LEFT - distance st SENSOR_FRONT_RIGHT) \<and>
   (\<not> front_wall_detection c st \<longleftrightarrow>
      distance st SENSOR_FRONT_LEFT \<ge> 1.5 * c \<or> distance st SENSOR_FRONT_RIGHT \<ge> 1.5 * c)"
  by (auto simp: get_front_sensors_error_def front_wall_detection_def FRONT_WALL_DETECTION_def
      mult.commute)

theorem front_sensors_error_gated_witness:
  "\<not> front_wall_detection 0.18 (front_state 0.30 0.10) \<and>
   get_front_sensors_error 0.18 (front_state 0.30 0.10) = 0 \<and>
   \<not> front_wall_detection 0.18 (front_state 0.10 0.27) \<and>
   get_front_sensors_error 0.18 (front_state 0.10 0.27) = 0 \<and>
   front_wall_detection 0.18 (front_state 0.20 0.15) \<and>
   get_front_sensors_error 0.18 (front_state 0.20 0.15) = 0.05"
  using front_sensors_error_gated [of "0.18" "front_state 0.30 0.10"]
    front_sensors_error_gated [of "0.18" "front_state 0.10 0.27"]
    front_sensors_error_gated [of "0.18" "front_state 0.20 0.15"]
  by (simp add: front_state_distance)

subsection \<open>C9: what the calibration leaves unchanged\<close>

text \<open>
  C9. \<open>side_sensors_calibration\<close> changes the side-left and side-right calibration
  factors only: on return every entry of the distance array, and the calibration factors
  of the two front sensors, are what they were on entry; the array of calibration factors
  is the one on entry but for its side-left and side-right entries.
\<close>

theorem side_sensors_calibration_frame:
  "distance (side_sensors_calibration m st) = distance st \<and>
   calibration_factor (side_sensors_calibration m st) SENSOR_FRONT_LEFT =
     calibration_factor st SENSOR_FRONT_LEFT \<and>
   calibration_factor (side_sensors_calibration m st) SENSOR_FRONT_RIGHT =
     calibration_factor st SENSOR_FRONT_RIGHT \<and>
   calibration_factor (side_sensors_calibration m st) =
     (calibration_factor st)
       (SENSOR_SIDE_LEFT := calibration_factor (side_sensors_calibration m st) SENSOR_SIDE_LEFT,
        SENSOR_SIDE_RIGHT := calibration_factor (side_sensors_calibration m st) SENSOR_SIDE_RIGHT)"
proof -
  let ?st' = "side_sensors_calibration m st"
  have d: "distance ?st' = distance st"
    by (rule side_sensors_calibration_distance)
  have fl: "calibration_factor ?st' SENSOR_FRONT_LEFT = calibration_factor st SENSOR_FRONT_LEFT"
    by (rule side_sensors_calibration_front)
  have fr: "calibration_factor ?st' SENSOR_FRONT_RIGHT = calibration_factor st SENSOR_FRONT_RIGHT"
    by (rule side_sensors_calibration_front)
  have only: "calibration_factor ?st' =
      (calibration_factor st)
        (SENSOR_SIDE_LEFT := calibration_factor ?st' SENSOR_SIDE_LEFT,
         SENSOR_SIDE_RIGHT := calibration_factor ?st' SENSOR_SIDE_RIGHT)"
    by (rule ext) (simp add: side_sensors_calibration_factor sensor_ids)
  from d fl fr only show ?thesis
    by blast
qed

subsection \<open>C10: the front calibration factors\<close>

text \<open>
  C10. The calibration factors of the two front sensors are zero in the initial state
  and zero after every sequence of calls of the functions of the module. The distance
  that an update stores for a front sensor is the same whatever the calibration factors
  are: front distances are never corrected.
\<close>

theorem front_factors_stay_zero:
  "calibration_factor walls_init SENSOR_FRONT_LEFT = 0 \<and>
   calibration_factor walls_init SENSOR_FRONT_RIGHT = 0 \<and>
   calibration_factor (run rlog m walls_init cs) SENSOR_FRONT_LEFT = 0 \<and>
   calibration_factor (run rlog m walls_init cs) SENSOR_FRONT_RIGHT = 0 \<and>
   get_front_left_distance (update_distance_readings adc_on adc_off rlog (st\<lparr>calibration_factor := f\<rparr>)) =
     get_front_left_distance (update_distance_readings adc_on adc_off rlog st) \<and>
   get_front_right_distance (update_distance_readings adc_on adc_off rlog (st\<lparr>calibration_factor := f\<rparr>)) =
     get_front_right_distance (update_distance_readings adc_on adc_off rlog st)"
proof -
  have z: "calibration_factor walls_init j = 0" for j
    by (simp add: walls_init_def)
  have lt: "SENSOR_FRONT_LEFT < SENSORS_WALL_MAX" "SENSOR_FRONT_RIGHT < SENSORS_WALL_MAX"
    by (simp_all add: sensor_ids)
  show ?thesis
    by (simp add: z run_front_factors get_front_left_distance_def get_front_right_distance_def
        update_distance_readings_distance lt stored_reading_front)
qed

end
